theory Spec2Isabelle
  imports Main "HOL-Library.Word"
begin

unbundle bit_operations_syntax

section \<open>Data model of \<^verbatim>\<open>src/core/state.cpp\<close>\<close>

text \<open>
  The file keeps two registries in static storage, \<^verbatim>\<open>Applications\<close>
  (\<^verbatim>\<open>std::map<pid_t, macos_application *>\<close>) and \<^verbatim>\<open>Windows\<close>
  (\<^verbatim>\<open>std::map<uint32_t, macos_window *>\<close>), and talks to the accessibility library
  (\<^verbatim>\<open>AXLib...\<close>), to pthreads and to the event dispatcher (\<^verbatim>\<open>ConstructEvent\<close>).
  The structs come from headers outside \<^verbatim>\<open>src/\<close>; only the members that
  \<^verbatim>\<open>state.cpp\<close> reads are kept. A value of a record type stands for a non-null pointer
  to a live struct (the fields read here are never written by the modelled functions);
  a pointer that may be \<^verbatim>\<open>NULL\<close> is an \<open>option\<close>.
\<close>

type_synonym pid_t = int
  \<comment> \<open>a process id; it is only compared and used as a map key, never computed with\<close>

type_synonym AXUIElementRef = nat
  \<comment> \<open>opaque handle of the accessibility service\<close>

type_synonym macos_observer = nat
  \<comment> \<open>the observer state embedded in an application record, named by its address\<close>

type_synonym AXError = int

definition kAXErrorSuccess :: AXError where
  "kAXErrorSuccess = 0"

datatype notification =
    kAXWindowCreatedNotification
  | kAXUIElementDestroyedNotification
  | kAXFocusedWindowChangedNotification
  | kAXWindowMovedNotification
  | kAXWindowResizedNotification
  | kAXWindowMiniaturizedNotification
  | kAXWindowDeminiaturizedNotification
  | kAXTitleChangedNotification
  | OtherNotification string

datatype event_type =
    ChunkWM_WindowCreated
  | ChunkWM_WindowDestroyed
  | ChunkWM_WindowFocused
  | ChunkWM_WindowMoved
  | ChunkWM_WindowResized
  | ChunkWM_WindowMinimized
  | ChunkWM_WindowDeminimized
  | ChunkWM_WindowTitleChanged

record macos_application =
  PID :: pid_t
  Name_app :: string
  Observer :: macos_observer

record macos_window =
  Id_w :: "32 word"
  Name :: "string option"
  Owner :: macos_application
  Ref :: AXUIElementRef

text \<open>
  The \<^verbatim>\<open>void *Reference\<close> registered with a notification and handed back to the
  callback: the owning application for the application-wide notifications, the window
  itself for the per-window destroy notification.
\<close>

datatype reference =
    ApplicationReference macos_application
  | WindowReference macos_window

type_synonym subscription_key = "macos_observer \<times> AXUIElementRef \<times> notification"

text \<open>
  The program state: the three statics of the file, followed by what the collaborators
  hold on its behalf (active notification subscriptions, attached application observers)
  and by the trace of the calls that leave the file (records handed to
  \<^verbatim>\<open>AXLibDestroyWindow\<close> and \<^verbatim>\<open>AXLibDestroyApplication\<close>, events built by
  \<^verbatim>\<open>ConstructEvent\<close>, process enumerations requested). \<open>Applications\<close> is an
  association list sorted by key, as \<^verbatim>\<open>std::map\<close> iterates in key order.
\<close>

record state =
  Applications :: "(pid_t \<times> macos_application) list"
  Windows :: "32 word \<rightharpoonup> macos_window"
  WindowsLock :: bool
  Subscriptions :: "subscription_key \<rightharpoonup> reference"
  ObservedApplications :: "macos_application list"
  DestroyedWindows :: "macos_window list"
  DestroyedApplications :: "macos_application list"
  Events :: "(event_type \<times> macos_window) list"
  ProcessQueries :: "32 word list"

text \<open>
  What the operating system and the accessibility library answer. These functions are
  not under \<^verbatim>\<open>src/\<close>; their answers are parameters of the model, so every theorem
  holds for all of them.
\<close>

record ax_service =
  pthread_mutex_init :: int
  Process_Policy_Regular :: "32 word"
  Process_Policy_LSUIElement :: "32 word"
  AXLibRunningProcesses :: "32 word \<Rightarrow> macos_application list"
  AXLibWindowListForApplication :: "macos_application \<Rightarrow> macos_window list option"
  AXObserverAddNotification :: "macos_observer \<Rightarrow> AXUIElementRef \<Rightarrow> notification \<Rightarrow> AXError"
  AXObserverCreate :: "macos_application \<Rightarrow> bool"
  AXLibGetWindowID :: "AXUIElementRef \<Rightarrow> 32 word"
  AXLibConstructWindow :: "macos_application \<Rightarrow> AXUIElementRef \<Rightarrow> macos_window"
  AXLibConstructApplication :: "(32 word \<times> 32 word) \<Rightarrow> pid_t \<Rightarrow> string \<Rightarrow> macos_application"

definition InitialState :: state where
  "InitialState =
     \<lparr>Applications = [], Windows = Map.empty, WindowsLock = False,
      Subscriptions = Map.empty, ObservedApplications = [], DestroyedWindows = [],
      DestroyedApplications = [], Events = [], ProcessQueries = []\<rparr>"

section \<open>Collaborators\<close>

text \<open>
  Modelled from the spec: \<^verbatim>\<open>AXLibAddObserverNotification\<close> is defined outside
  \<^verbatim>\<open>src/\<close>. The spec gives \<^verbatim>\<open>Subscribe(handle, notificationKind, context) ->
  success/failure\<close>: the service decides; on success the subscription of that observer
  to that notification of that handle is active and carries the context, on failure
  nothing changes.
\<close>

definition AXLibAddObserverNotification ::
  "ax_service \<Rightarrow> macos_observer \<Rightarrow> AXUIElementRef \<Rightarrow> notification \<Rightarrow> reference \<Rightarrow> state
     \<Rightarrow> AXError \<times> state" where
  "AXLibAddObserverNotification ax Obs Elem Notification Reference s =
     (let Error = AXObserverAddNotification ax Obs Elem Notification
      in if Error = kAXErrorSuccess
         then (Error, s\<lparr>Subscriptions := (Subscriptions s)((Obs, Elem, Notification) \<mapsto> Reference)\<rparr>)
         else (Error, s))"

text \<open>
  Modelled from the spec: \<^verbatim>\<open>AXLibRemoveObserverNotification\<close> is defined outside
  \<^verbatim>\<open>src/\<close>. The spec gives \<^verbatim>\<open>Unsubscribe(handle, notificationKind)\<close>: afterwards
  that subscription is not active.
\<close>

definition AXLibRemoveObserverNotification ::
  "macos_observer \<Rightarrow> AXUIElementRef \<Rightarrow> notification \<Rightarrow> state \<Rightarrow> state" where
  "AXLibRemoveObserverNotification Obs Elem Notification s =
     s\<lparr>Subscriptions := (Subscriptions s)((Obs, Elem, Notification) := None)\<rparr>"

text \<open>
  Modelled from the spec: \<^verbatim>\<open>AXLibDestroyWindow\<close> is defined outside \<^verbatim>\<open>src/\<close>; it
  destroys the window record. The model records which records were destroyed.
\<close>

definition AXLibDestroyWindow :: "macos_window \<Rightarrow> state \<Rightarrow> state" where
  "AXLibDestroyWindow Window s = s\<lparr>DestroyedWindows := DestroyedWindows s @ [Window]\<rparr>"

text \<open>
  Modelled from the spec: \<^verbatim>\<open>AXLibDestroyApplication\<close> is defined outside \<^verbatim>\<open>src/\<close>;
  it releases the application record and its resources.
\<close>

definition AXLibDestroyApplication :: "macos_application \<Rightarrow> state \<Rightarrow> state" where
  "AXLibDestroyApplication Application s =
     s\<lparr>DestroyedApplications := DestroyedApplications s @ [Application]\<rparr>"

text \<open>
  Modelled from the spec: \<^verbatim>\<open>AXLibAddApplicationObserver\<close> is defined outside
  \<^verbatim>\<open>src/\<close>; it attaches the notification router to the application and reports
  whether that worked.
\<close>

definition AXLibAddApplicationObserver :: "ax_service \<Rightarrow> macos_application \<Rightarrow> state \<Rightarrow> bool \<times> state" where
  "AXLibAddApplicationObserver ax Application s =
     (if AXObserverCreate ax Application
      then (True, s\<lparr>ObservedApplications := ObservedApplications s @ [Application]\<rparr>)
      else (False, s))"

text \<open>
  Modelled from the spec: the macro \<^verbatim>\<open>ConstructEvent\<close> comes from
  \<^verbatim>\<open>dispatch/event.h\<close>. The spec gives \<^verbatim>\<open>EmitEvent(kind, payload)\<close>: the event is
  handed to the dispatcher, which is a queue here.
\<close>

definition ConstructEvent :: "event_type \<Rightarrow> macos_window \<Rightarrow> state \<Rightarrow> state" where
  "ConstructEvent Type Window s = s\<lparr>Events := Events s @ [(Type, Window)]\<rparr>"

section \<open>The window registry\<close>

text \<open>
  \<^verbatim>\<open>pthread_mutex_lock\<close> and \<^verbatim>\<open>pthread_mutex_unlock\<close> bracket every access below;
  in this sequential model each function starts and ends with the lock free, so the
  pair is not a state change.
\<close>

definition GetWindowByID :: "32 word \<Rightarrow> state \<Rightarrow> macos_window option" where
  "GetWindowByID WindowId s = Windows s WindowId"

definition AddWindowToCollection :: "ax_service \<Rightarrow> macos_window \<Rightarrow> state \<Rightarrow> bool \<times> state" where
  "AddWindowToCollection ax Window s =
     (if Id_w Window = 0 then (False, s)
      else
        (case AXLibAddObserverNotification ax (Observer (Owner Window)) (Ref Window)
                kAXUIElementDestroyedNotification (WindowReference Window) s of
           (Success, s1) \<Rightarrow>
             (let Result = (Success = kAXErrorSuccess)
              in if Result
                 then (Result, s1\<lparr>Windows := (Windows s1)(Id_w Window \<mapsto> Window)\<rparr>)
                 else (Result, s1))))"

definition RemoveWindowFromCollection :: "macos_window \<Rightarrow> state \<Rightarrow> state" where
  "RemoveWindowFromCollection Window s =
     AXLibRemoveObserverNotification (Observer (Owner Window)) (Ref Window)
       kAXUIElementDestroyedNotification
       (s\<lparr>Windows := (Windows s)(Id_w Window := None)\<rparr>)"

section \<open>Window discovery\<close>

text \<open>
  The \<^verbatim>\<open>while((Window = *List++))\<close> loop over the null-terminated array returned by
  \<^verbatim>\<open>AXLibWindowListForApplication\<close>; a \<^verbatim>\<open>NULL\<close> result is \<open>None\<close>. The
  \<^verbatim>\<open>printf\<close> on the rejection path is logging and is left out, and so is the
  \<^verbatim>\<open>free\<close> of the array, which holds pointers only.
\<close>

fun AddWindowListToCollection :: "ax_service \<Rightarrow> macos_window list \<Rightarrow> state \<Rightarrow> state" where
  "AddWindowListToCollection ax [] s = s"
| "AddWindowListToCollection ax (Window # List) s =
     AddWindowListToCollection ax List
       (if GetWindowByID (Id_w Window) s \<noteq> None
        then AXLibDestroyWindow Window s
        else
          (case AddWindowToCollection ax Window s of
             (Added, s1) \<Rightarrow> if \<not> Added then AXLibDestroyWindow Window s1 else s1))"

definition AddApplicationWindowsToCollection :: "ax_service \<Rightarrow> macos_application \<Rightarrow> state \<Rightarrow> state" where
  "AddApplicationWindowsToCollection ax Application s =
     (case AXLibWindowListForApplication ax Application of
        None \<Rightarrow> s
      | Some WindowList \<Rightarrow> AddWindowListToCollection ax WindowList s)"

section \<open>The application registry\<close>

text \<open>
  The operations of \<^verbatim>\<open>std::map\<close> that the file uses on \<^verbatim>\<open>Applications\<close>:
  \<^verbatim>\<open>find\<close> is \<open>map_of\<close>, \<^verbatim>\<open>operator[]\<close> followed by an assignment is
  \<open>map_assign\<close> (insert in key order, or overwrite), \<^verbatim>\<open>erase\<close> is \<open>map_erase\<close>.
\<close>

fun map_assign :: "pid_t \<Rightarrow> macos_application \<Rightarrow> (pid_t \<times> macos_application) list
    \<Rightarrow> (pid_t \<times> macos_application) list" where
  "map_assign k v [] = [(k, v)]"
| "map_assign k v ((k', v') # m) =
     (if k < k' then (k, v) # (k', v') # m
      else if k = k' then (k, v) # m
      else (k', v') # map_assign k v m)"

definition map_erase :: "pid_t \<Rightarrow> (pid_t \<times> macos_application) list
    \<Rightarrow> (pid_t \<times> macos_application) list" where
  "map_erase k m = filter (\<lambda>kv. fst kv \<noteq> k) m"

definition GetApplicationFromPID :: "pid_t \<Rightarrow> state \<Rightarrow> macos_application option" where
  "GetApplicationFromPID Pid s =
     (case map_of (Applications s) Pid of
        Some Application \<Rightarrow> Some Application
      | None \<Rightarrow> None)"

definition AddApplication :: "macos_application \<Rightarrow> state \<Rightarrow> state" where
  "AddApplication Application s =
     (if map_of (Applications s) (PID Application) = None
      then s\<lparr>Applications := map_assign (PID Application) Application (Applications s)\<rparr>
      else s)"

section \<open>The notification router\<close>

text \<open>
  \<^verbatim>\<open>OBSERVER_CALLBACK(ApplicationCallback)\<close>. The callback casts \<^verbatim>\<open>Reference\<close> to an
  application for a created window and to a window for a destroyed element; a reference
  of the other kind is a misuse of the pointer, and the result is \<open>None\<close>. The other
  branches do not touch \<^verbatim>\<open>Reference\<close>.
\<close>

definition ApplicationCallback ::
  "ax_service \<Rightarrow> AXUIElementRef \<Rightarrow> notification \<Rightarrow> reference \<Rightarrow> state \<Rightarrow> state option" where
  "ApplicationCallback ax Element Notification Reference s =
     (if Notification = kAXWindowCreatedNotification then
        (case Reference of
           ApplicationReference Application \<Rightarrow>
             Some (ConstructEvent ChunkWM_WindowCreated (AXLibConstructWindow ax Application Element) s)
         | WindowReference _ \<Rightarrow> None)
      else if Notification = kAXUIElementDestroyedNotification then
        (case Reference of
           WindowReference Window \<Rightarrow> Some (ConstructEvent ChunkWM_WindowDestroyed Window s)
         | ApplicationReference _ \<Rightarrow> None)
      else if Notification = kAXFocusedWindowChangedNotification then
        (case GetWindowByID (AXLibGetWindowID ax Element) s of
           Some Window \<Rightarrow> Some (ConstructEvent ChunkWM_WindowFocused Window s)
         | None \<Rightarrow> Some s)
      else if Notification = kAXWindowMovedNotification then
        (case GetWindowByID (AXLibGetWindowID ax Element) s of
           Some Window \<Rightarrow> Some (ConstructEvent ChunkWM_WindowMoved Window s)
         | None \<Rightarrow> Some s)
      else if Notification = kAXWindowResizedNotification then
        (case GetWindowByID (AXLibGetWindowID ax Element) s of
           Some Window \<Rightarrow> Some (ConstructEvent ChunkWM_WindowResized Window s)
         | None \<Rightarrow> Some s)
      else if Notification = kAXWindowMiniaturizedNotification then
        (case GetWindowByID (AXLibGetWindowID ax Element) s of
           Some Window \<Rightarrow> Some (ConstructEvent ChunkWM_WindowMinimized Window s)
         | None \<Rightarrow> Some s)
      else if Notification = kAXWindowDeminiaturizedNotification then
        (case GetWindowByID (AXLibGetWindowID ax Element) s of
           Some Window \<Rightarrow> Some (ConstructEvent ChunkWM_WindowDeminimized Window s)
         | None \<Rightarrow> Some s)
      else if Notification = kAXTitleChangedNotification then
        (case GetWindowByID (AXLibGetWindowID ax Element) s of
           Some Window \<Rightarrow> Some (ConstructEvent ChunkWM_WindowTitleChanged Window s)
         | None \<Rightarrow> Some s)
      else Some s)"

section \<open>The lifecycle controller\<close>

text \<open>
  \<^verbatim>\<open>usleep\<close> (real time) and the \<^verbatim>\<open>printf\<close> calls (logging) of
  \<^verbatim>\<open>ConstructAndAddApplication\<close> are left out; both branches on the observer's
  result only print.
\<close>

definition ConstructAndAddApplication ::
  "ax_service \<Rightarrow> (32 word \<times> 32 word) \<Rightarrow> pid_t \<Rightarrow> string \<Rightarrow> state \<Rightarrow> macos_application \<times> state" where
  "ConstructAndAddApplication ax PSN Pid ProcessName s =
     (let Application = AXLibConstructApplication ax PSN Pid ProcessName;
          s1 = AddApplication Application s
      in case AXLibAddApplicationObserver ax Application s1 of
           (Observed, s2) \<Rightarrow> (Application, AddApplicationWindowsToCollection ax Application s2))"

definition RemoveAndDestroyApplication :: "macos_application \<Rightarrow> state \<Rightarrow> state" where
  "RemoveAndDestroyApplication Application s =
     AXLibDestroyApplication Application
       (if map_of (Applications s) (PID Application) \<noteq> None
        then s\<lparr>Applications := map_erase (PID Application) (Applications s)\<rparr>
        else s)"

fun UpdateWindowCollectionFrom ::
  "ax_service \<Rightarrow> (pid_t \<times> macos_application) list \<Rightarrow> state \<Rightarrow> state" where
  "UpdateWindowCollectionFrom ax [] s = s"
| "UpdateWindowCollectionFrom ax (It # Rest) s =
     UpdateWindowCollectionFrom ax Rest (AddApplicationWindowsToCollection ax (snd It) s)"

definition UpdateWindowCollection :: "ax_service \<Rightarrow> state \<Rightarrow> state" where
  "UpdateWindowCollection ax s = UpdateWindowCollectionFrom ax (Applications s) s"

fun InitRunningApplications :: "ax_service \<Rightarrow> macos_application list \<Rightarrow> state \<Rightarrow> state" where
  "InitRunningApplications ax [] s = s"
| "InitRunningApplications ax (Application # Rest) s =
     InitRunningApplications ax Rest
       (AddApplicationWindowsToCollection ax Application
         (snd (AXLibAddApplicationObserver ax Application (AddApplication Application s))))"

definition InitState :: "ax_service \<Rightarrow> state \<Rightarrow> bool \<times> state" where
  "InitState ax s =
     (let Result = (pthread_mutex_init ax = 0)
      in if Result
         then
           (let ProcessPolicy = Process_Policy_Regular ax OR Process_Policy_LSUIElement ax;
                RunningApplications = AXLibRunningProcesses ax ProcessPolicy
            in (Result,
                InitRunningApplications ax RunningApplications
                  (s\<lparr>WindowsLock := True, ProcessQueries := ProcessQueries s @ [ProcessPolicy]\<rparr>)))
         else (Result, s))"

section \<open>Notions used by the properties\<close>

text \<open>
  A window is admissible when \<^verbatim>\<open>AddWindowToCollection\<close> would accept it: its identifier
  is not 0 and the service grants the destroy-notification subscription.
\<close>

definition admissible :: "ax_service \<Rightarrow> macos_window \<Rightarrow> bool" where
  "admissible ax Window \<longleftrightarrow>
     Id_w Window \<noteq> 0 \<and>
     AXObserverAddNotification ax (Observer (Owner Window)) (Ref Window)
       kAXUIElementDestroyedNotification = kAXErrorSuccess"

text \<open>
  The subscription that \<^verbatim>\<open>AddWindowToCollection\<close> requests and
  \<^verbatim>\<open>RemoveWindowFromCollection\<close> cancels for a window: the observer of its owner, its
  handle, the destroy notification.
\<close>

definition DestroyKey :: "macos_window \<Rightarrow> subscription_key" where
  "DestroyKey Window = (Observer (Owner Window), Ref Window, kAXUIElementDestroyedNotification)"

text \<open>The number of active destroy-notification subscriptions of a window.\<close>

definition DestroySubscriptions :: "state \<Rightarrow> macos_window \<Rightarrow> nat" where
  "DestroySubscriptions s Window =
     (case Subscriptions s (DestroyKey Window) of None \<Rightarrow> 0 | Some _ \<Rightarrow> 1)"


text \<open>
  Discovery has nothing left to register for an application: every window of its
  enumeration has its identifier in the registry or is not admissible.
\<close>

definition settled :: "ax_service \<Rightarrow> state \<Rightarrow> macos_application \<Rightarrow> bool" where
  "settled ax s Application \<longleftrightarrow>
     (\<forall>List. AXLibWindowListForApplication ax Application = Some List \<longrightarrow>
        (\<forall>W \<in> set List. Windows s (Id_w W) \<noteq> None \<or> \<not> admissible ax W))"

text \<open>
  The states the file can be in: the statics start empty, and every function of the
  file that changes the state may be called with any argument and any answers of the
  service. (\<^verbatim>\<open>UpdateWindowTitle\<close> changes a window record only, and none of the three
  statics.)
\<close>

inductive reachable :: "state \<Rightarrow> bool" where
  Initial: "reachable InitialState"
| InitState: "reachable s \<Longrightarrow> reachable (snd (InitState ax s))"
| AddWindowToCollection: "reachable s \<Longrightarrow> reachable (snd (AddWindowToCollection ax Window s))"
| RemoveWindowFromCollection: "reachable s \<Longrightarrow> reachable (RemoveWindowFromCollection Window s)"
| ApplicationCallback:
    "reachable s \<Longrightarrow> ApplicationCallback ax Element Notification Reference s = Some s'
       \<Longrightarrow> reachable s'"
| ConstructAndAddApplication:
    "reachable s \<Longrightarrow> reachable (snd (ConstructAndAddApplication ax PSN Pid ProcessName s))"
| RemoveAndDestroyApplication:
    "reachable s \<Longrightarrow> reachable (RemoveAndDestroyApplication Application s)"
| UpdateWindowCollection: "reachable s \<Longrightarrow> reachable (UpdateWindowCollection ax s)"


text \<open>
  The rows of the spec's dispatch table that resolve the window by its identifier, as
  the spec words them: notification kind to emitted event.
\<close>

fun ResolvedEvent :: "notification \<Rightarrow> event_type option" where
  "ResolvedEvent kAXFocusedWindowChangedNotification = Some ChunkWM_WindowFocused"
| "ResolvedEvent kAXWindowMovedNotification = Some ChunkWM_WindowMoved"
| "ResolvedEvent kAXWindowResizedNotification = Some ChunkWM_WindowResized"
| "ResolvedEvent kAXWindowMiniaturizedNotification = Some ChunkWM_WindowMinimized"
| "ResolvedEvent kAXWindowDeminiaturizedNotification = Some ChunkWM_WindowDeminimized"
| "ResolvedEvent kAXTitleChangedNotification = Some ChunkWM_WindowTitleChanged"
| "ResolvedEvent _ = None"

section \<open>A concrete scenario\<close>

text \<open>
  One application with process id 100. Its windows 7 and 8 can be subscribed; the
  window with handle 90 cannot (the service answers \<^verbatim>\<open>kAXErrorCannotComplete\<close>);
  \<open>Win0\<close> is a record for the handle of window 7 whose identifier could not be resolved;
  \<open>Win7b\<close> is a second record that carries identifier 7. Attaching the application
  observer fails in this scenario.
\<close>

definition App1 :: macos_application where
  "App1 = \<lparr>PID = 100, Name_app = ''Finder'', Observer = 1\<rparr>"

definition Win7 :: macos_window where
  "Win7 = \<lparr>Id_w = 7, Name = Some ''Documents'', Owner = App1, Ref = 70\<rparr>"

definition Win8 :: macos_window where
  "Win8 = \<lparr>Id_w = 8, Name = Some ''Downloads'', Owner = App1, Ref = 80\<rparr>"

definition Win9 :: macos_window where
  "Win9 = \<lparr>Id_w = 9, Name = None, Owner = App1, Ref = 90\<rparr>"

definition Win0 :: macos_window where
  "Win0 = \<lparr>Id_w = 0, Name = None, Owner = App1, Ref = 70\<rparr>"

definition Win7b :: macos_window where
  "Win7b = \<lparr>Id_w = 7, Name = Some ''Documents (2)'', Owner = App1, Ref = 71\<rparr>"

definition ax1 :: ax_service where
  "ax1 =
     \<lparr>pthread_mutex_init = 0,
      Process_Policy_Regular = 1,
      Process_Policy_LSUIElement = 2,
      AXLibRunningProcesses = (\<lambda>Policy. [App1]),
      AXLibWindowListForApplication =
        (\<lambda>Application. if PID Application = 100 then Some [Win7, Win0, Win9, Win8, Win7b] else None),
      AXObserverAddNotification = (\<lambda>Obs Elem Notification. if Elem = 90 then - 25204 else 0),
      AXObserverCreate = (\<lambda>Application. False),
      AXLibGetWindowID = (\<lambda>Elem. if Elem = 70 then 7 else if Elem = 80 then 8 else 0),
      AXLibConstructWindow =
        (\<lambda>Application Elem. \<lparr>Id_w = 8, Name = Some ''Downloads'', Owner = Application, Ref = Elem\<rparr>),
      AXLibConstructApplication =
        (\<lambda>PSN Pid ProcessName. \<lparr>PID = Pid, Name_app = ProcessName, Observer = 1\<rparr>)\<rparr>"


definition Win7c :: macos_window where
  "Win7c = \<lparr>Id_w = 7, Name = None, Owner = App1, Ref = 90\<rparr>"

text \<open>The same scenario, except that the service grants every subscription.\<close>

definition ax2 :: ax_service where
  "ax2 = ax1\<lparr>AXObserverAddNotification := (\<lambda>Obs Elem Notification. 0)\<rparr>"

text \<open>
  A scenario in which the application enumerates \<open>Win7\<close> and \<open>Win7c\<close>, with the answers of
  \<open>ax1\<close>, and the same scenario with every subscription granted.
\<close>

definition ax3 :: ax_service where
  "ax3 =
     ax1\<lparr>AXLibWindowListForApplication :=
       (\<lambda>Application. if PID Application = 100 then Some [Win7, Win7c] else None)\<rparr>"

definition ax4 :: ax_service where
  "ax4 = ax3\<lparr>AXObserverAddNotification := (\<lambda>Obs Elem Notification. 0)\<rparr>"

text \<open>The state in which window 7 is registered and subscribed, and nothing else has happened.\<close>

definition State7 :: state where
  "State7 =
     InitialState\<lparr>Windows := [7 \<mapsto> Win7],
       Subscriptions := [(1, 70, kAXUIElementDestroyedNotification) \<mapsto> WindowReference Win7]\<rparr>"

section \<open>Auxiliary facts\<close>

lemma AddWindowToCollection_eq:
  "AddWindowToCollection ax W s =
     (if admissible ax W
      then (True, s\<lparr>Subscriptions := (Subscriptions s)(DestroyKey W \<mapsto> WindowReference W),
                    Windows := (Windows s)(Id_w W \<mapsto> W)\<rparr>)
      else (False, s))"
  by (simp add: AddWindowToCollection_def AXLibAddObserverNotification_def admissible_def
      DestroyKey_def Let_def)

lemma RemoveWindowFromCollection_eq:
  "RemoveWindowFromCollection W s =
     s\<lparr>Windows := (Windows s)(Id_w W := None),
       Subscriptions := (Subscriptions s)(DestroyKey W := None)\<rparr>"
  by (simp add: RemoveWindowFromCollection_def AXLibRemoveObserverNotification_def DestroyKey_def)

lemma discover_step:
  "AddWindowListToCollection ax (W # List) s =
     AddWindowListToCollection ax List
       (if Windows s (Id_w W) = None \<and> admissible ax W
        then s\<lparr>Subscriptions := (Subscriptions s)(DestroyKey W \<mapsto> WindowReference W),
               Windows := (Windows s)(Id_w W \<mapsto> W)\<rparr>
        else s\<lparr>DestroyedWindows := DestroyedWindows s @ [W]\<rparr>)"
  by (simp add: AddWindowToCollection_eq GetWindowByID_def AXLibDestroyWindow_def)

lemma discover_append:
  "AddWindowListToCollection ax (xs @ ys) s =
     AddWindowListToCollection ax ys (AddWindowListToCollection ax xs s)"
  by (induction xs arbitrary: s) (simp_all del: AddWindowListToCollection.simps(2) add: discover_step)

lemma discover_dom:
  "dom (Windows (AddWindowListToCollection ax List s)) =
     dom (Windows s) \<union> set (map Id_w (filter (admissible ax) List))"
proof (induction List arbitrary: s)
  case Nil
  show ?case by simp
next
  case (Cons W List)
  show ?case
    unfolding discover_step Cons.IH by auto
qed

lemma discover_keeps:
  "Windows s i = Some V \<Longrightarrow> Windows (AddWindowListToCollection ax List s) i = Some V"
proof (induction List arbitrary: s)
  case Nil
  then show ?case by simp
next
  case (Cons W List)
  show ?case
    unfolding discover_step
    by (rule Cons.IH) (use Cons.prems in auto)
qed

lemma discover_frame:
  "Applications (AddWindowListToCollection ax List s) = Applications s"
  "WindowsLock (AddWindowListToCollection ax List s) = WindowsLock s"
  "ObservedApplications (AddWindowListToCollection ax List s) = ObservedApplications s"
  "DestroyedApplications (AddWindowListToCollection ax List s) = DestroyedApplications s"
  "Events (AddWindowListToCollection ax List s) = Events s"
  "ProcessQueries (AddWindowListToCollection ax List s) = ProcessQueries s"
  by (induction List arbitrary: s; simp del: AddWindowListToCollection.simps(2) add: discover_step)+

lemma discover_settled:
  "\<forall>W \<in> set List. Windows s (Id_w W) \<noteq> None \<or> \<not> admissible ax W \<Longrightarrow>
     AddWindowListToCollection ax List s = s\<lparr>DestroyedWindows := DestroyedWindows s @ List\<rparr>"
proof (induction List arbitrary: s)
  case Nil
  show ?case by simp
next
  case (Cons W List)
  have W: "Windows s (Id_w W) \<noteq> None \<or> \<not> admissible ax W"
    using Cons.prems by simp
  have rest: "\<forall>V \<in> set List.
      Windows (s\<lparr>DestroyedWindows := DestroyedWindows s @ [W]\<rparr>) (Id_w V) \<noteq> None \<or> \<not> admissible ax V"
    using Cons.prems by simp
  show ?case
    unfolding discover_step using W Cons.IH [OF rest] by auto
qed

lemma discover_all_settled:
  "W \<in> set List \<Longrightarrow>
     Windows (AddWindowListToCollection ax List s) (Id_w W) \<noteq> None \<or> \<not> admissible ax W"
proof (cases "admissible ax W")
  case True
  assume "W \<in> set List"
  with True have "Id_w W \<in> dom (Windows (AddWindowListToCollection ax List s))"
    unfolding discover_dom by auto
  then show ?thesis by auto
next
  case False
  then show ?thesis by simp
qed

lemma discover_new:
  "Windows s i = None \<Longrightarrow> Windows (AddWindowListToCollection ax List s) i = Some V \<Longrightarrow>
     V \<in> set List \<and> Id_w V = i \<and> admissible ax V"
proof (induction List arbitrary: s)
  case Nil
  then show ?case by simp
next
  case (Cons W List)
  let ?m = "if Windows s (Id_w W) = None \<and> admissible ax W
        then s\<lparr>Subscriptions := (Subscriptions s)(DestroyKey W \<mapsto> WindowReference W),
               Windows := (Windows s)(Id_w W \<mapsto> W)\<rparr>
        else s\<lparr>DestroyedWindows := DestroyedWindows s @ [W]\<rparr>"
  have run: "Windows (AddWindowListToCollection ax List ?m) i = Some V"
    using Cons.prems(2) unfolding discover_step .
  show ?case
  proof (cases "Windows ?m i")
    case None
    from Cons.IH [OF None run] show ?thesis by simp
  next
    case (Some U)
    have "Windows (AddWindowListToCollection ax List ?m) i = Some U"
      by (rule discover_keeps [OF Some])
    with run have "U = V" by simp
    with Some Cons.prems(1) show ?thesis
      by (auto split: if_splits)
  qed
qed

lemma discover_window:
  "AddWindowListToCollection ax (Pre @ [W]) s =
     (let m = AddWindowListToCollection ax Pre s
      in if Windows m (Id_w W) = None \<and> admissible ax W
         then m\<lparr>Subscriptions := (Subscriptions m)(DestroyKey W \<mapsto> WindowReference W),
                Windows := (Windows m)(Id_w W \<mapsto> W)\<rparr>
         else m\<lparr>DestroyedWindows := DestroyedWindows m @ [W]\<rparr>)"
  unfolding discover_append discover_step by (simp add: Let_def)

lemma example_admissible:
  "admissible ax1 Win7" "admissible ax1 Win8" "\<not> admissible ax1 Win9" "\<not> admissible ax1 Win0"
  "admissible ax1 Win7b"
  by (simp_all add: admissible_def ax1_def Win7_def Win8_def Win9_def Win0_def Win7b_def App1_def
      kAXErrorSuccess_def)

lemmas scenario_defs =
  AddApplicationWindowsToCollection_def AddWindowToCollection_def AXLibAddObserverNotification_def
  GetWindowByID_def AXLibDestroyWindow_def ax1_def ax2_def Win7_def Win8_def Win9_def Win0_def
  Win7b_def App1_def InitialState_def State7_def kAXErrorSuccess_def Let_def

section \<open>Window discovery reconciles the enumeration with the registry\<close>

text \<open>
  C1. Discovery for an application whose enumeration is \<open>List\<close> treats every enumerated
  window \<open>W\<close> as follows, where \<open>m\<close> is the state when the loop reaches \<open>W\<close> and \<open>n\<close> the
  state after it: if the identifier of \<open>W\<close> is in the registry, \<open>W\<close> is destroyed and the
  registry is unchanged; otherwise registration is attempted, and if it fails \<open>W\<close> is
  destroyed and the registry is unchanged, and if it succeeds \<open>W\<close> is stored under its
  identifier and not destroyed. Hence after discovery the identifiers in the registry
  are the prior ones and those of the admissible enumerated windows, every prior entry
  is what it was, and every new entry is an admissible enumerated window under its own
  identifier.
\<close>

theorem C1_discovery_reconciles:
  assumes "AXLibWindowListForApplication ax Application = Some List"
  shows
    "(\<forall>Pre W Post. List = Pre @ W # Post \<longrightarrow>
        (let m = AddWindowListToCollection ax Pre s;
             n = AddWindowListToCollection ax (Pre @ [W]) s
         in (GetWindowByID (Id_w W) m \<noteq> None \<longrightarrow>
               Windows n = Windows m \<and> DestroyedWindows n = DestroyedWindows m @ [W]) \<and>
            (GetWindowByID (Id_w W) m = None \<and> \<not> fst (AddWindowToCollection ax W m) \<longrightarrow>
               Windows n = Windows m \<and> DestroyedWindows n = DestroyedWindows m @ [W]) \<and>
            (GetWindowByID (Id_w W) m = None \<and> fst (AddWindowToCollection ax W m) \<longrightarrow>
               Windows n = (Windows m)(Id_w W \<mapsto> W) \<and> DestroyedWindows n = DestroyedWindows m))) \<and>
     dom (Windows (AddApplicationWindowsToCollection ax Application s)) =
       dom (Windows s) \<union> set (map Id_w (filter (admissible ax) List)) \<and>
     (\<forall>i V. Windows s i = Some V \<longrightarrow>
        Windows (AddApplicationWindowsToCollection ax Application s) i = Some V) \<and>
     (\<forall>i V. Windows s i = None \<longrightarrow>
        Windows (AddApplicationWindowsToCollection ax Application s) i = Some V \<longrightarrow>
        V \<in> set List \<and> Id_w V = i \<and> admissible ax V)"
proof -
  have run: "AddApplicationWindowsToCollection ax Application s = AddWindowListToCollection ax List s"
    using assms by (simp add: AddApplicationWindowsToCollection_def)
  have each: "\<forall>Pre W Post. List = Pre @ W # Post \<longrightarrow>
        (let m = AddWindowListToCollection ax Pre s;
             n = AddWindowListToCollection ax (Pre @ [W]) s
         in (GetWindowByID (Id_w W) m \<noteq> None \<longrightarrow>
               Windows n = Windows m \<and> DestroyedWindows n = DestroyedWindows m @ [W]) \<and>
            (GetWindowByID (Id_w W) m = None \<and> \<not> fst (AddWindowToCollection ax W m) \<longrightarrow>
               Windows n = Windows m \<and> DestroyedWindows n = DestroyedWindows m @ [W]) \<and>
            (GetWindowByID (Id_w W) m = None \<and> fst (AddWindowToCollection ax W m) \<longrightarrow>
               Windows n = (Windows m)(Id_w W \<mapsto> W) \<and> DestroyedWindows n = DestroyedWindows m))"
    by (simp add: discover_window GetWindowByID_def AddWindowToCollection_eq Let_def)
  have ids: "dom (Windows (AddApplicationWindowsToCollection ax Application s)) =
       dom (Windows s) \<union> set (map Id_w (filter (admissible ax) List))"
    unfolding run by (rule discover_dom)
  have old: "\<forall>i V. Windows s i = Some V \<longrightarrow>
        Windows (AddApplicationWindowsToCollection ax Application s) i = Some V"
    unfolding run by (simp add: discover_keeps)
  have new: "\<forall>i V. Windows s i = None \<longrightarrow>
        Windows (AddApplicationWindowsToCollection ax Application s) i = Some V \<longrightarrow>
        V \<in> set List \<and> Id_w V = i \<and> admissible ax V"
    unfolding run using discover_new by blast
  from each ids old new show ?thesis by blast
qed

theorem C1_discovery_reconciles_witness:
  "AXLibWindowListForApplication ax1 App1 = Some [Win7, Win0, Win9, Win8, Win7b] \<and>
   dom (Windows (AddApplicationWindowsToCollection ax1 App1 State7)) = {7, 8} \<and>
   Windows State7 7 = Some Win7 \<and>
   Windows (AddApplicationWindowsToCollection ax1 App1 State7) 7 = Some Win7 \<and>
   Windows State7 8 = None \<and>
   Windows (AddApplicationWindowsToCollection ax1 App1 State7) 8 = Some Win8 \<and>
   Win8 \<in> set [Win7, Win0, Win9, Win8, Win7b] \<and> admissible ax1 Win8 \<and>
   GetWindowByID (Id_w Win7) (AddWindowListToCollection ax1 [] State7) \<noteq> None \<and>
   DestroyedWindows (AddWindowListToCollection ax1 ([] @ [Win7]) State7) =
     DestroyedWindows (AddWindowListToCollection ax1 [] State7) @ [Win7] \<and>
   GetWindowByID (Id_w Win9) (AddWindowListToCollection ax1 [Win7, Win0] State7) = None \<and>
   \<not> fst (AddWindowToCollection ax1 Win9 (AddWindowListToCollection ax1 [Win7, Win0] State7)) \<and>
   Windows (AddWindowListToCollection ax1 ([Win7, Win0] @ [Win9]) State7) =
     Windows (AddWindowListToCollection ax1 [Win7, Win0] State7) \<and>
   DestroyedWindows (AddWindowListToCollection ax1 ([Win7, Win0] @ [Win9]) State7) =
     DestroyedWindows (AddWindowListToCollection ax1 [Win7, Win0] State7) @ [Win9] \<and>
   GetWindowByID (Id_w Win8) (AddWindowListToCollection ax1 [Win7, Win0, Win9] State7) = None \<and>
   fst (AddWindowToCollection ax1 Win8 (AddWindowListToCollection ax1 [Win7, Win0, Win9] State7)) \<and>
   Windows (AddWindowListToCollection ax1 ([Win7, Win0, Win9] @ [Win8]) State7) =
     (Windows (AddWindowListToCollection ax1 [Win7, Win0, Win9] State7))(Id_w Win8 \<mapsto> Win8)"
proof -
  have list: "AXLibWindowListForApplication ax1 App1 = Some [Win7, Win0, Win9, Win8, Win7b]"
    by (simp add: ax1_def App1_def)
  have seven: "Windows State7 7 = Some Win7"
    by (simp add: State7_def)
  have eight: "Windows State7 8 = None"
    by (simp add: State7_def InitialState_def)
  have eight': "Windows (AddApplicationWindowsToCollection ax1 App1 State7) 8 = Some Win8"
    by (simp add: scenario_defs)
  have dup: "GetWindowByID (Id_w Win7) (AddWindowListToCollection ax1 [] State7) \<noteq> None"
    by (simp add: GetWindowByID_def State7_def Win7_def)
  have rejected: "GetWindowByID (Id_w Win9) (AddWindowListToCollection ax1 [Win7, Win0] State7) = None \<and>
      \<not> fst (AddWindowToCollection ax1 Win9 (AddWindowListToCollection ax1 [Win7, Win0] State7))"
    by (simp add: scenario_defs)
  have accepted: "GetWindowByID (Id_w Win8) (AddWindowListToCollection ax1 [Win7, Win0, Win9] State7) = None \<and>
      fst (AddWindowToCollection ax1 Win8 (AddWindowListToCollection ax1 [Win7, Win0, Win9] State7))"
    by (simp add: scenario_defs)
  have split1: "[Win7, Win0, Win9, Win8, Win7b] = [] @ Win7 # [Win0, Win9, Win8, Win7b]"
    and split2: "[Win7, Win0, Win9, Win8, Win7b] = [Win7, Win0] @ Win9 # [Win8, Win7b]"
    and split3: "[Win7, Win0, Win9, Win8, Win7b] = [Win7, Win0, Win9] @ Win8 # [Win7b]"
    by simp_all
  note inst = C1_discovery_reconciles [OF list, of State7]
  from inst have "dom (Windows (AddApplicationWindowsToCollection ax1 App1 State7)) =
      dom (Windows State7) \<union> set (map Id_w (filter (admissible ax1) [Win7, Win0, Win9, Win8, Win7b]))"
    by blast
  then have ids: "dom (Windows (AddApplicationWindowsToCollection ax1 App1 State7)) = {7, 8}"
    by (simp add: example_admissible) (auto simp add: State7_def Win7_def Win8_def Win7b_def)
  from inst seven have old: "Windows (AddApplicationWindowsToCollection ax1 App1 State7) 7 = Some Win7"
    by blast
  from inst eight eight' have new: "Win8 \<in> set [Win7, Win0, Win9, Win8, Win7b] \<and> admissible ax1 Win8"
    by blast
  from inst split1 dup have a:
    "DestroyedWindows (AddWindowListToCollection ax1 ([] @ [Win7]) State7) =
       DestroyedWindows (AddWindowListToCollection ax1 [] State7) @ [Win7]"
    unfolding Let_def by blast
  from inst split2 rejected have b:
    "Windows (AddWindowListToCollection ax1 ([Win7, Win0] @ [Win9]) State7) =
       Windows (AddWindowListToCollection ax1 [Win7, Win0] State7) \<and>
     DestroyedWindows (AddWindowListToCollection ax1 ([Win7, Win0] @ [Win9]) State7) =
       DestroyedWindows (AddWindowListToCollection ax1 [Win7, Win0] State7) @ [Win9]"
    unfolding Let_def by blast
  from inst split3 accepted have c:
    "Windows (AddWindowListToCollection ax1 ([Win7, Win0, Win9] @ [Win8]) State7) =
       (Windows (AddWindowListToCollection ax1 [Win7, Win0, Win9] State7))(Id_w Win8 \<mapsto> Win8)"
    unfolding Let_def by blast
  from list ids seven old eight eight' new dup a rejected b accepted c show ?thesis by blast
qed

section \<open>Registration and the reserved identifier 0\<close>

lemma discover_zero:
  "Windows s 0 = None \<Longrightarrow> Windows (AddWindowListToCollection ax List s) 0 = None"
proof -
  assume "Windows s 0 = None"
  then have "0 \<notin> dom (Windows (AddWindowListToCollection ax List s))"
    unfolding discover_dom by (auto simp add: admissible_def)
  then show ?thesis by auto
qed

lemma discovery_zero:
  "Windows s 0 = None \<Longrightarrow> Windows (AddApplicationWindowsToCollection ax Application s) 0 = None"
  by (simp add: AddApplicationWindowsToCollection_def discover_zero split: option.splits)

lemma AddApplication_frame:
  "Windows (AddApplication Application s) = Windows s"
  "Subscriptions (AddApplication Application s) = Subscriptions s"
  by (simp_all add: AddApplication_def)

lemma AddApplicationObserver_frame:
  "Windows (snd (AXLibAddApplicationObserver ax Application s)) = Windows s"
  "Subscriptions (snd (AXLibAddApplicationObserver ax Application s)) = Subscriptions s"
  "Applications (snd (AXLibAddApplicationObserver ax Application s)) = Applications s"
  by (simp_all add: AXLibAddApplicationObserver_def)

lemma ApplicationCallback_frame:
  "ApplicationCallback ax Element Notification Reference s = Some s' \<Longrightarrow>
     Windows s' = Windows s \<and> Subscriptions s' = Subscriptions s \<and>
     Applications s' = Applications s \<and> DestroyedWindows s' = DestroyedWindows s"
  by (auto simp add: ApplicationCallback_def ConstructEvent_def
      split: if_splits reference.splits option.splits)

lemma UpdateWindowCollectionFrom_zero:
  "Windows s 0 = None \<Longrightarrow> Windows (UpdateWindowCollectionFrom ax Apps s) 0 = None"
  by (induction Apps arbitrary: s) (simp_all add: discovery_zero)

lemma InitRunningApplications_zero:
  "Windows s 0 = None \<Longrightarrow> Windows (InitRunningApplications ax Apps s) 0 = None"
proof (induction Apps arbitrary: s)
  case Nil
  then show ?case by simp
next
  case (Cons Application Apps)
  have "Windows (AddApplicationWindowsToCollection ax Application
          (snd (AXLibAddApplicationObserver ax Application (AddApplication Application s)))) 0 = None"
    by (rule discovery_zero) (simp add: AddApplicationObserver_frame AddApplication_frame Cons.prems)
  from Cons.IH [OF this] show ?case by simp
qed

lemma reachable_zero: "reachable s \<Longrightarrow> Windows s 0 = None"
proof (induction rule: reachable.induct)
  case Initial
  show ?case by (simp add: InitialState_def)
next
  case (InitState s ax)
  then show ?case
    by (simp add: InitState_def Let_def InitRunningApplications_zero)
next
  case (AddWindowToCollection s ax Window)
  then show ?case
    by (simp add: AddWindowToCollection_eq admissible_def)
next
  case (RemoveWindowFromCollection s Window)
  then show ?case
    by (simp add: RemoveWindowFromCollection_eq)
next
  case (ApplicationCallback s ax Element Notification Reference s')
  then show ?case
    using ApplicationCallback_frame by fastforce
next
  case (ConstructAndAddApplication s ax PSN Pid ProcessName)
  then show ?case
    by (simp add: ConstructAndAddApplication_def Let_def split: prod.splits)
      (metis discovery_zero AddApplicationObserver_frame(1) AddApplication_frame(1) snd_conv)
next
  case (RemoveAndDestroyApplication s Application)
  then show ?case
    by (simp add: RemoveAndDestroyApplication_def AXLibDestroyApplication_def)
next
  case (UpdateWindowCollection s ax)
  then show ?case
    by (simp add: UpdateWindowCollection_def UpdateWindowCollectionFrom_zero)
qed

text \<open>
  C2. \<^verbatim>\<open>AddWindowToCollection\<close> returns false exactly when the identifier of the
  window is 0 or the service refuses the destroy-notification subscription for its
  handle. When it returns false the state, and so the registry, is what it was; when it
  returns true the registry is the old one with the window stored under its identifier.
  In every reachable state \<^verbatim>\<open>GetWindowByID(0)\<close> finds nothing: 0 is not a key of the
  registry.
\<close>

theorem C2_register_rejects:
  "(\<not> fst (AddWindowToCollection ax Window s) \<longleftrightarrow>
      Id_w Window = 0 \<or>
      AXObserverAddNotification ax (Observer (Owner Window)) (Ref Window)
        kAXUIElementDestroyedNotification \<noteq> kAXErrorSuccess) \<and>
   (\<not> fst (AddWindowToCollection ax Window s) \<longrightarrow>
      snd (AddWindowToCollection ax Window s) = s) \<and>
   (fst (AddWindowToCollection ax Window s) \<longrightarrow>
      Windows (snd (AddWindowToCollection ax Window s)) = (Windows s)(Id_w Window \<mapsto> Window)) \<and>
   (reachable s \<longrightarrow> GetWindowByID 0 s = None \<and> 0 \<notin> dom (Windows s))"
proof -
  have "reachable s \<longrightarrow> GetWindowByID 0 s = None \<and> 0 \<notin> dom (Windows s)"
    using reachable_zero [of s] by (auto simp add: GetWindowByID_def)
  then show ?thesis
    by (simp add: AddWindowToCollection_eq admissible_def)
qed

theorem C2_register_rejects_witness:
  "\<not> fst (AddWindowToCollection ax1 Win0 State7) \<and>
   Id_w Win0 = 0 \<and>
   \<not> fst (AddWindowToCollection ax1 Win9 State7) \<and>
   snd (AddWindowToCollection ax1 Win9 State7) = State7 \<and>
   fst (AddWindowToCollection ax1 Win8 State7) \<and>
   Windows (snd (AddWindowToCollection ax1 Win8 State7)) = (Windows State7)(Id_w Win8 \<mapsto> Win8) \<and>
   reachable State7 \<and>
   GetWindowByID 0 State7 = None"
proof -
  have zero: "Id_w Win0 = 0"
    by (simp add: Win0_def)
  have nine: "AXObserverAddNotification ax1 (Observer (Owner Win9)) (Ref Win9)
        kAXUIElementDestroyedNotification \<noteq> kAXErrorSuccess"
    by (simp add: ax1_def Win9_def kAXErrorSuccess_def)
  have eight: "Id_w Win8 \<noteq> 0 \<and> AXObserverAddNotification ax1 (Observer (Owner Win8)) (Ref Win8)
        kAXUIElementDestroyedNotification = kAXErrorSuccess"
    by (simp add: ax1_def Win8_def kAXErrorSuccess_def)
  have "snd (AddWindowToCollection ax1 Win7 InitialState) = State7"
    unfolding AddWindowToCollection_eq using example_admissible(1)
    by (simp add: State7_def DestroyKey_def Win7_def App1_def InitialState_def)
  then have reach: "reachable State7"
    using reachable.AddWindowToCollection [OF reachable.Initial, of ax1 Win7] by simp
  from C2_register_rejects [of ax1 Win0 State7] zero
  have a: "\<not> fst (AddWindowToCollection ax1 Win0 State7)" by blast
  from C2_register_rejects [of ax1 Win9 State7] nine
  have b: "\<not> fst (AddWindowToCollection ax1 Win9 State7) \<and>
      snd (AddWindowToCollection ax1 Win9 State7) = State7" by blast
  from C2_register_rejects [of ax1 Win8 State7] eight
  have c: "fst (AddWindowToCollection ax1 Win8 State7) \<and>
      Windows (snd (AddWindowToCollection ax1 Win8 State7)) = (Windows State7)(Id_w Win8 \<mapsto> Win8)"
    by blast
  from C2_register_rejects [of ax1 Win0 State7] reach
  have d: "GetWindowByID 0 State7 = None" by blast
  from a zero b c reach d show ?thesis by blast
qed

section \<open>Registration and destroy-notification subscriptions\<close>















section \<open>Registration does not look for duplicates\<close>

text \<open>
  C10. For a window with a nonzero identifier whose destroy-notification subscription
  is granted, \<^verbatim>\<open>AddWindowToCollection\<close> succeeds whatever the registry holds under that
  identifier: afterwards the lookup of the identifier gives the new record, every other
  identifier is as before, and nothing is destroyed, so a record that was stored there
  is dropped from the registry without notice. The check is the caller's: discovery,
  which asks \<^verbatim>\<open>GetWindowByID\<close> first, leaves the registry unchanged for a window whose
  identifier is present.
\<close>

theorem C10_register_overwrites:
  assumes "Id_w W \<noteq> 0"
    and "AXObserverAddNotification ax (Observer (Owner W)) (Ref W)
           kAXUIElementDestroyedNotification = kAXErrorSuccess"
  shows
    "fst (AddWindowToCollection ax W s) \<and>
     GetWindowByID (Id_w W) (snd (AddWindowToCollection ax W s)) = Some W \<and>
     (\<forall>i. i \<noteq> Id_w W \<longrightarrow>
        GetWindowByID i (snd (AddWindowToCollection ax W s)) = GetWindowByID i s) \<and>
     DestroyedWindows (snd (AddWindowToCollection ax W s)) = DestroyedWindows s \<and>
     (GetWindowByID (Id_w W) s \<noteq> None \<longrightarrow>
        Windows (AddWindowListToCollection ax [W] s) = Windows s)"
proof -
  from assms have "admissible ax W"
    by (simp add: admissible_def)
  then show ?thesis
    by (simp add: AddWindowToCollection_eq GetWindowByID_def AXLibDestroyWindow_def)
qed

theorem C10_register_overwrites_witness:
  "Id_w Win7b \<noteq> 0 \<and>
   AXObserverAddNotification ax1 (Observer (Owner Win7b)) (Ref Win7b)
     kAXUIElementDestroyedNotification = kAXErrorSuccess \<and>
   GetWindowByID (Id_w Win7b) State7 = Some Win7 \<and>
   Win7 \<noteq> Win7b \<and>
   fst (AddWindowToCollection ax1 Win7b State7) \<and>
   GetWindowByID (Id_w Win7b) (snd (AddWindowToCollection ax1 Win7b State7)) = Some Win7b \<and>
   8 \<noteq> Id_w Win7b \<and>
   GetWindowByID 8 (snd (AddWindowToCollection ax1 Win7b State7)) = GetWindowByID 8 State7 \<and>
   Windows (AddWindowListToCollection ax1 [Win7b] State7) = Windows State7"
proof -
  have id: "Id_w Win7b \<noteq> 0"
    by (simp add: Win7b_def)
  have granted: "AXObserverAddNotification ax1 (Observer (Owner Win7b)) (Ref Win7b)
     kAXUIElementDestroyedNotification = kAXErrorSuccess"
    by (simp add: ax1_def Win7b_def kAXErrorSuccess_def)
  have present: "GetWindowByID (Id_w Win7b) State7 = Some Win7"
    by (simp add: GetWindowByID_def State7_def Win7b_def)
  have differ: "Win7 \<noteq> Win7b"
    by (simp add: Win7_def Win7b_def)
  have other: "8 \<noteq> Id_w Win7b"
    by (simp add: Win7b_def)
  from C10_register_overwrites [OF id granted, of State7] present other
  have "fst (AddWindowToCollection ax1 Win7b State7) \<and>
     GetWindowByID (Id_w Win7b) (snd (AddWindowToCollection ax1 Win7b State7)) = Some Win7b \<and>
     GetWindowByID 8 (snd (AddWindowToCollection ax1 Win7b State7)) = GetWindowByID 8 State7 \<and>
     Windows (AddWindowListToCollection ax1 [Win7b] State7) = Windows State7"
    by simp
  with id granted present differ other show ?thesis by blast
qed

section \<open>The notification router\<close>

text \<open>
  C4. For a focus-changed, moved, resized, minimized, deminimized or title-changed
  notification, the router resolves the identifier of the element and looks it up in
  the registry. If the identifier is not there, the callback returns with the whole
  state as it was: no event, both registries unchanged. If it is there, the only change
  is one more event at the end of the queue: the event of that notification kind, with
  the registered window record as payload.
\<close>

theorem C4_router_resolves:
  assumes "ResolvedEvent Notification = Some Type"
  shows
    "(GetWindowByID (AXLibGetWindowID ax Element) s = None \<longrightarrow>
        ApplicationCallback ax Element Notification Reference s = Some s) \<and>
     (\<forall>Window. GetWindowByID (AXLibGetWindowID ax Element) s = Some Window \<longrightarrow>
        ApplicationCallback ax Element Notification Reference s =
          Some (s\<lparr>Events := Events s @ [(Type, Window)]\<rparr>))"
  using assms
  by (cases Notification) (auto simp add: ApplicationCallback_def ConstructEvent_def)

theorem C4_router_resolves_witness:
  "ResolvedEvent kAXWindowMovedNotification = Some ChunkWM_WindowMoved \<and>
   GetWindowByID (AXLibGetWindowID ax1 80) State7 = None \<and>
   ApplicationCallback ax1 80 kAXWindowMovedNotification (ApplicationReference App1) State7
     = Some State7 \<and>
   GetWindowByID (AXLibGetWindowID ax1 70) State7 = Some Win7 \<and>
   ApplicationCallback ax1 70 kAXWindowMovedNotification (ApplicationReference App1) State7
     = Some (State7\<lparr>Events := Events State7 @ [(ChunkWM_WindowMoved, Win7)]\<rparr>)"
proof -
  have kind: "ResolvedEvent kAXWindowMovedNotification = Some ChunkWM_WindowMoved"
    by simp
  have absent: "GetWindowByID (AXLibGetWindowID ax1 80) State7 = None"
    by (simp add: GetWindowByID_def ax1_def State7_def InitialState_def)
  have present: "GetWindowByID (AXLibGetWindowID ax1 70) State7 = Some Win7"
    by (simp add: GetWindowByID_def ax1_def State7_def InitialState_def)
  from C4_router_resolves [OF kind, of ax1 80 State7 "ApplicationReference App1"] absent
  have a: "ApplicationCallback ax1 80 kAXWindowMovedNotification (ApplicationReference App1) State7
     = Some State7"
    by blast
  from C4_router_resolves [OF kind, of ax1 70 State7 "ApplicationReference App1"] present
  have b: "ApplicationCallback ax1 70 kAXWindowMovedNotification (ApplicationReference App1) State7
     = Some (State7\<lparr>Events := Events State7 @ [(ChunkWM_WindowMoved, Win7)]\<rparr>)"
    by blast
  from kind absent a present b show ?thesis by blast
qed

text \<open>
  C5. On a window-created notification whose reference is the owning application, the
  router constructs a window record from the application and the handle and emits a
  \<^verbatim>\<open>ChunkWM_WindowCreated\<close> event that carries it. That is all it does: the registry, the
  subscriptions and the destroyed records are what they were, so the router neither
  looks the identifier up nor registers the record.
\<close>

theorem C5_created_emits_event_only:
  "ApplicationCallback ax Element kAXWindowCreatedNotification (ApplicationReference Application) s =
     Some (s\<lparr>Events := Events s @
       [(ChunkWM_WindowCreated, AXLibConstructWindow ax Application Element)]\<rparr>)"
  by (simp add: ApplicationCallback_def ConstructEvent_def)

theorem C5_created_emits_event_only_witness:
  "ApplicationCallback ax1 80 kAXWindowCreatedNotification (ApplicationReference App1) InitialState =
     Some (InitialState\<lparr>Events := [(ChunkWM_WindowCreated, Win8)]\<rparr>)"
  using C5_created_emits_event_only [of ax1 80 App1 InitialState]
  by (simp add: ax1_def Win8_def InitialState_def)

text \<open>
  The window constructed for handle 80 is admissible and its identifier 8 is not in the
  registry, so discovery-style admission would register it; after the callback it is
  not registered and has no subscription.
\<close>

theorem C5_created_no_admission_counterexample:
  "AXLibConstructWindow ax1 App1 80 = Win8 \<and>
   admissible ax1 Win8 \<and>
   GetWindowByID (Id_w Win8) InitialState = None \<and>
   GetWindowByID (Id_w Win8) (AddWindowListToCollection ax1 [Win8] InitialState) = Some Win8 \<and>
   ApplicationCallback ax1 80 kAXWindowCreatedNotification (ApplicationReference App1) InitialState =
     Some (ConstructEvent ChunkWM_WindowCreated Win8 InitialState) \<and>
   GetWindowByID (Id_w Win8) (ConstructEvent ChunkWM_WindowCreated Win8 InitialState) = None \<and>
   DestroySubscriptions (ConstructEvent ChunkWM_WindowCreated Win8 InitialState) Win8 = 0"
proof -
  have made: "AXLibConstructWindow ax1 App1 80 = Win8"
    by (simp add: ax1_def Win8_def)
  have absent: "GetWindowByID (Id_w Win8) InitialState = None"
    by (simp add: GetWindowByID_def InitialState_def)
  have admitted: "GetWindowByID (Id_w Win8) (AddWindowListToCollection ax1 [Win8] InitialState) = Some Win8"
    using absent example_admissible(2)
    by (simp add: GetWindowByID_def AddWindowToCollection_eq)
  have callback: "ApplicationCallback ax1 80 kAXWindowCreatedNotification (ApplicationReference App1)
      InitialState = Some (ConstructEvent ChunkWM_WindowCreated Win8 InitialState)"
    by (simp add: ApplicationCallback_def made)
  have after: "GetWindowByID (Id_w Win8) (ConstructEvent ChunkWM_WindowCreated Win8 InitialState) = None \<and>
      DestroySubscriptions (ConstructEvent ChunkWM_WindowCreated Win8 InitialState) Win8 = 0"
    by (simp add: GetWindowByID_def ConstructEvent_def InitialState_def DestroySubscriptions_def)
  from made example_admissible(2) absent admitted callback after show ?thesis by blast
qed

section \<open>Removing an application\<close>

lemma map_erase_absent: "map_of (map_erase k m) k = None"
  by (induction m) (auto simp add: map_erase_def)

lemma map_erase_other: "p \<noteq> k \<Longrightarrow> map_of (map_erase k m) p = map_of m p"
  by (induction m) (auto simp add: map_erase_def)

text \<open>
  C7. After \<^verbatim>\<open>RemoveAndDestroyApplication\<close>, \<^verbatim>\<open>GetApplicationFromPID\<close> returns nothing
  for the process id of the application, the lookups of all other process ids are as
  before, the application record has been destroyed, and the window registry is
  exactly what it was.
\<close>

theorem C7_remove_application:
  "GetApplicationFromPID (PID Application) (RemoveAndDestroyApplication Application s) = None \<and>
   (\<forall>Pid. Pid \<noteq> PID Application \<longrightarrow>
      GetApplicationFromPID Pid (RemoveAndDestroyApplication Application s) =
        GetApplicationFromPID Pid s) \<and>
   Application \<in> set (DestroyedApplications (RemoveAndDestroyApplication Application s)) \<and>
   Windows (RemoveAndDestroyApplication Application s) = Windows s"
  by (auto simp add: RemoveAndDestroyApplication_def AXLibDestroyApplication_def
      GetApplicationFromPID_def map_erase_absent map_erase_other split: option.splits)

theorem C7_remove_application_witness:
  "GetApplicationFromPID (PID App1)
     (AddApplication (App1\<lparr>PID := 200\<rparr>) (AddApplication App1 State7)) = Some App1 \<and>
   GetApplicationFromPID (PID App1)
     (RemoveAndDestroyApplication App1
       (AddApplication (App1\<lparr>PID := 200\<rparr>) (AddApplication App1 State7))) = None \<and>
   200 \<noteq> PID App1 \<and>
   GetApplicationFromPID 200
     (RemoveAndDestroyApplication App1
       (AddApplication (App1\<lparr>PID := 200\<rparr>) (AddApplication App1 State7))) =
     Some (App1\<lparr>PID := 200\<rparr>) \<and>
   Windows (RemoveAndDestroyApplication App1
     (AddApplication (App1\<lparr>PID := 200\<rparr>) (AddApplication App1 State7))) 7 = Some Win7 \<and>
   Owner Win7 = App1"
proof -
  have before: "GetApplicationFromPID (PID App1)
      (AddApplication (App1\<lparr>PID := 200\<rparr>) (AddApplication App1 State7)) = Some App1 \<and>
    GetApplicationFromPID 200
      (AddApplication (App1\<lparr>PID := 200\<rparr>) (AddApplication App1 State7)) = Some (App1\<lparr>PID := 200\<rparr>)"
    by (simp add: GetApplicationFromPID_def AddApplication_def State7_def InitialState_def App1_def)
  have kept: "Windows (AddApplication (App1\<lparr>PID := 200\<rparr>) (AddApplication App1 State7)) 7 = Some Win7"
    by (simp add: AddApplication_def State7_def)
  have owner: "Owner Win7 = App1"
    by (simp add: Win7_def)
  have other: "200 \<noteq> PID App1"
    by (simp add: App1_def)
  from C7_remove_application
    [of App1 "AddApplication (App1\<lparr>PID := 200\<rparr>) (AddApplication App1 State7)"] kept before other
  have "GetApplicationFromPID (PID App1)
     (RemoveAndDestroyApplication App1
       (AddApplication (App1\<lparr>PID := 200\<rparr>) (AddApplication App1 State7))) = None \<and>
   GetApplicationFromPID 200
     (RemoveAndDestroyApplication App1
       (AddApplication (App1\<lparr>PID := 200\<rparr>) (AddApplication App1 State7))) =
     Some (App1\<lparr>PID := 200\<rparr>) \<and>
   Windows (RemoveAndDestroyApplication App1
     (AddApplication (App1\<lparr>PID := 200\<rparr>) (AddApplication App1 State7))) 7 = Some Win7"
    by simp
  with before owner other show ?thesis by blast
qed

section \<open>Start-up\<close>

lemma InitRunningApplications_ProcessQueries:
  "ProcessQueries (InitRunningApplications ax Apps s) = ProcessQueries s"
  by (induction Apps arbitrary: s)
    (simp_all add: AddApplicationWindowsToCollection_def discover_frame AXLibAddApplicationObserver_def AddApplication_def
      split: option.splits)

text \<open>
  C8. \<^verbatim>\<open>InitState\<close> returns false exactly when \<^verbatim>\<open>pthread_mutex_init\<close> does not return
  0, whatever the service answers when observers are attached and windows are
  registered. When the lock cannot be initialized the state is what it was: no process
  enumeration was requested, no application was registered, no observer was attached.
  When it can, the running processes are enumerated once, for the regular and the
  UI-element policy together.
\<close>

theorem C8_init_state:
  "(\<not> fst (InitState ax s) \<longleftrightarrow> pthread_mutex_init ax \<noteq> 0) \<and>
   (pthread_mutex_init ax \<noteq> 0 \<longrightarrow> snd (InitState ax s) = s) \<and>
   (pthread_mutex_init ax = 0 \<longrightarrow>
      ProcessQueries (snd (InitState ax s)) =
        ProcessQueries s @ [Process_Policy_Regular ax OR Process_Policy_LSUIElement ax])"
  by (simp add: InitState_def Let_def InitRunningApplications_ProcessQueries)

theorem C8_init_state_witness:
  "pthread_mutex_init (ax1\<lparr>pthread_mutex_init := 22\<rparr>) \<noteq> 0 \<and>
   \<not> fst (InitState (ax1\<lparr>pthread_mutex_init := 22\<rparr>) InitialState) \<and>
   snd (InitState (ax1\<lparr>pthread_mutex_init := 22\<rparr>) InitialState) = InitialState \<and>
   \<not> AXObserverCreate ax1 App1 \<and>
   \<not> admissible ax1 Win9 \<and>
   pthread_mutex_init ax1 = 0 \<and>
   fst (InitState ax1 InitialState) \<and>
   ProcessQueries (snd (InitState ax1 InitialState)) = [3]"
proof -
  have fails: "pthread_mutex_init (ax1\<lparr>pthread_mutex_init := 22\<rparr>) \<noteq> 0"
    by simp
  have works: "pthread_mutex_init ax1 = 0"
    by (simp add: ax1_def)
  have observer: "\<not> AXObserverCreate ax1 App1"
    by (simp add: ax1_def)
  from C8_init_state [of "ax1\<lparr>pthread_mutex_init := 22\<rparr>" InitialState] fails
  have a: "\<not> fst (InitState (ax1\<lparr>pthread_mutex_init := 22\<rparr>) InitialState) \<and>
      snd (InitState (ax1\<lparr>pthread_mutex_init := 22\<rparr>) InitialState) = InitialState"
    by blast
  from C8_init_state [of ax1 InitialState] works
  have b: "fst (InitState ax1 InitialState) \<and>
      ProcessQueries (snd (InitState ax1 InitialState)) =
        ProcessQueries InitialState @ [Process_Policy_Regular ax1 OR Process_Policy_LSUIElement ax1]"
    by blast
  then have c: "ProcessQueries (snd (InitState ax1 InitialState)) = [3]"
    by (simp add: InitialState_def ax1_def)
  from fails a observer example_admissible(3) works b c show ?thesis by blast
qed

section \<open>Repeated discovery\<close>

lemma discover_grows:
  "Windows s i \<noteq> None \<Longrightarrow> Windows (AddWindowListToCollection ax List s) i \<noteq> None"
  using discover_keeps by fastforce

lemma discovery_eq:
  "AddApplicationWindowsToCollection ax Application s =
     (case AXLibWindowListForApplication ax Application of
        None \<Rightarrow> s
      | Some List \<Rightarrow> AddWindowListToCollection ax List s)"
  by (simp add: AddApplicationWindowsToCollection_def)

lemma discovery_keeps:
  "Windows s i = Some V \<Longrightarrow> Windows (AddApplicationWindowsToCollection ax Application s) i = Some V"
  by (simp add: discovery_eq discover_keeps split: option.splits)

lemma discovery_Applications:
  "Applications (AddApplicationWindowsToCollection ax Application s) = Applications s"
  by (simp add: discovery_eq discover_frame split: option.splits)

lemma discovery_again:
  assumes "AXLibWindowListForApplication ax' Application = AXLibWindowListForApplication ax Application"
    and "\<forall>List. AXLibWindowListForApplication ax Application = Some List \<longrightarrow>
           (\<forall>W \<in> set List.
              Windows (AddApplicationWindowsToCollection ax Application s) (Id_w W) = None \<longrightarrow>
              \<not> admissible ax' W)"
  shows "AddApplicationWindowsToCollection ax' Application (AddApplicationWindowsToCollection ax Application s) =
     (case AXLibWindowListForApplication ax Application of
        None \<Rightarrow> AddApplicationWindowsToCollection ax Application s
      | Some List \<Rightarrow>
          (AddApplicationWindowsToCollection ax Application s)
            \<lparr>DestroyedWindows :=
               DestroyedWindows (AddApplicationWindowsToCollection ax Application s) @ List\<rparr>)"
proof (cases "AXLibWindowListForApplication ax Application")
  case None
  with assms(1) show ?thesis by (simp add: discovery_eq)
next
  case (Some List)
  have "\<forall>W \<in> set List.
      Windows (AddWindowListToCollection ax List s) (Id_w W) \<noteq> None \<or> \<not> admissible ax' W"
    using assms(2) Some by (auto simp add: discovery_eq)
  from discover_settled [OF this] Some assms(1) show ?thesis
    by (simp add: discovery_eq)
qed

lemma settled_after: "settled ax (AddApplicationWindowsToCollection ax Application s) Application"
  unfolding settled_def using discover_all_settled [of _ _ ax s] by (auto simp add: discovery_eq)

lemma settled_mono:
  "settled ax s A \<Longrightarrow> settled ax (AddApplicationWindowsToCollection ax B s) A"
  unfolding settled_def using discovery_keeps [of s _ _ ax B] by fastforce

lemma settled_Windows:
  "settled ax s A \<Longrightarrow> Windows (AddApplicationWindowsToCollection ax A s) = Windows s"
  unfolding settled_def by (auto simp add: discovery_eq discover_settled split: option.splits)

lemma settled_same:
  "Windows t = Windows s \<Longrightarrow> settled ax s A \<Longrightarrow> settled ax t A"
  by (simp add: settled_def)

lemma update_mono:
  "settled ax s A \<Longrightarrow> settled ax (UpdateWindowCollectionFrom ax Apps s) A"
  by (induction Apps arbitrary: s) (simp_all add: settled_mono)

lemma update_settles:
  "It \<in> set Apps \<Longrightarrow> settled ax (UpdateWindowCollectionFrom ax Apps s) (snd It)"
proof (induction Apps arbitrary: s)
  case Nil
  then show ?case by simp
next
  case (Cons Head Apps)
  show ?case
  proof (cases "It = Head")
    case True
    then show ?thesis
      by (simp add: update_mono settled_after)
  next
    case False
    with Cons.prems have "It \<in> set Apps" by simp
    from Cons.IH [OF this] show ?thesis by simp
  qed
qed

lemma update_settled:
  "\<forall>It \<in> set Apps. settled ax s (snd It) \<Longrightarrow>
     Windows (UpdateWindowCollectionFrom ax Apps s) = Windows s"
proof (induction Apps arbitrary: s)
  case Nil
  show ?case by simp
next
  case (Cons Head Apps)
  have same: "Windows (AddApplicationWindowsToCollection ax (snd Head) s) = Windows s"
    using Cons.prems by (simp add: settled_Windows)
  have "\<forall>It \<in> set Apps. settled ax (AddApplicationWindowsToCollection ax (snd Head) s) (snd It)"
    using Cons.prems settled_same [OF same] by simp
  from Cons.IH [OF this] same show ?case by simp
qed

lemma update_Applications:
  "Applications (UpdateWindowCollectionFrom ax Apps s) = Applications s"
  by (induction Apps arbitrary: s) (simp_all add: discovery_Applications)

lemma update_again:
  "Windows (UpdateWindowCollection ax (UpdateWindowCollection ax s)) =
     Windows (UpdateWindowCollection ax s)"
  unfolding UpdateWindowCollection_def update_Applications
  by (rule update_settled) (simp add: update_settles)

text \<open>
  C6. Whatever the service answers the second time, a second discovery for the same
  application leaves every registry entry that the first one left as it is: already
  registered windows are not registered again. If moreover the second enumeration is
  the first one and the service grants no destroy-notification subscription to an
  enumerated window that the first invocation rejected, that is, a window whose
  identifier is not in the registry after the first invocation, the second invocation
  changes neither the registry nor the subscriptions: it registers nothing, and
  destroys every record of its enumeration. With the same answers, refreshing all
  applications twice gives the registry that refreshing once gives.
\<close>

theorem C6_discovery_idempotent:
  "(\<forall>i V. Windows (AddApplicationWindowsToCollection ax Application s) i = Some V \<longrightarrow>
      Windows (AddApplicationWindowsToCollection ax' Application
        (AddApplicationWindowsToCollection ax Application s)) i = Some V) \<and>
   (AXLibWindowListForApplication ax' Application = AXLibWindowListForApplication ax Application \<and>
    (\<forall>List. AXLibWindowListForApplication ax Application = Some List \<longrightarrow>
       (\<forall>W \<in> set List.
          Windows (AddApplicationWindowsToCollection ax Application s) (Id_w W) = None \<longrightarrow>
          \<not> admissible ax' W)) \<longrightarrow>
      Windows (AddApplicationWindowsToCollection ax' Application
        (AddApplicationWindowsToCollection ax Application s)) =
        Windows (AddApplicationWindowsToCollection ax Application s) \<and>
      Subscriptions (AddApplicationWindowsToCollection ax' Application
        (AddApplicationWindowsToCollection ax Application s)) =
        Subscriptions (AddApplicationWindowsToCollection ax Application s) \<and>
      DestroyedWindows (AddApplicationWindowsToCollection ax' Application
        (AddApplicationWindowsToCollection ax Application s)) =
        DestroyedWindows (AddApplicationWindowsToCollection ax Application s) @
          (case AXLibWindowListForApplication ax Application of None \<Rightarrow> [] | Some List \<Rightarrow> List)) \<and>
   Windows (UpdateWindowCollection ax (UpdateWindowCollection ax s)) =
     Windows (UpdateWindowCollection ax s)"
proof -
  have kept: "\<forall>i V. Windows (AddApplicationWindowsToCollection ax Application s) i = Some V \<longrightarrow>
      Windows (AddApplicationWindowsToCollection ax' Application
        (AddApplicationWindowsToCollection ax Application s)) i = Some V"
    by (simp add: discovery_keeps)
  have again: "AXLibWindowListForApplication ax' Application = AXLibWindowListForApplication ax Application \<and>
    (\<forall>List. AXLibWindowListForApplication ax Application = Some List \<longrightarrow>
       (\<forall>W \<in> set List.
          Windows (AddApplicationWindowsToCollection ax Application s) (Id_w W) = None \<longrightarrow>
          \<not> admissible ax' W)) \<longrightarrow>
      Windows (AddApplicationWindowsToCollection ax' Application
        (AddApplicationWindowsToCollection ax Application s)) =
        Windows (AddApplicationWindowsToCollection ax Application s) \<and>
      Subscriptions (AddApplicationWindowsToCollection ax' Application
        (AddApplicationWindowsToCollection ax Application s)) =
        Subscriptions (AddApplicationWindowsToCollection ax Application s) \<and>
      DestroyedWindows (AddApplicationWindowsToCollection ax' Application
        (AddApplicationWindowsToCollection ax Application s)) =
        DestroyedWindows (AddApplicationWindowsToCollection ax Application s) @
          (case AXLibWindowListForApplication ax Application of None \<Rightarrow> [] | Some List \<Rightarrow> List)"
  proof (intro impI, elim conjE)
    assume list: "AXLibWindowListForApplication ax' Application = AXLibWindowListForApplication ax Application"
      and answers: "\<forall>List. AXLibWindowListForApplication ax Application = Some List \<longrightarrow>
       (\<forall>W \<in> set List.
          Windows (AddApplicationWindowsToCollection ax Application s) (Id_w W) = None \<longrightarrow>
          \<not> admissible ax' W)"
    show "Windows (AddApplicationWindowsToCollection ax' Application
        (AddApplicationWindowsToCollection ax Application s)) =
        Windows (AddApplicationWindowsToCollection ax Application s) \<and>
      Subscriptions (AddApplicationWindowsToCollection ax' Application
        (AddApplicationWindowsToCollection ax Application s)) =
        Subscriptions (AddApplicationWindowsToCollection ax Application s) \<and>
      DestroyedWindows (AddApplicationWindowsToCollection ax' Application
        (AddApplicationWindowsToCollection ax Application s)) =
        DestroyedWindows (AddApplicationWindowsToCollection ax Application s) @
          (case AXLibWindowListForApplication ax Application of None \<Rightarrow> [] | Some List \<Rightarrow> List)"
      unfolding discovery_again [OF list answers]
      by (simp split: option.splits)
  qed
  from kept again update_again [of ax s] show ?thesis by blast
qed

lemma first_discovery:
  "AddApplicationWindowsToCollection ax1 App1 InitialState =
     InitialState\<lparr>Windows := [7 \<mapsto> Win7, 8 \<mapsto> Win8],
       Subscriptions := [DestroyKey Win7 \<mapsto> WindowReference Win7, DestroyKey Win8 \<mapsto> WindowReference Win8],
       DestroyedWindows := [Win0, Win9, Win7b]\<rparr>"
  by (simp add: scenario_defs DestroyKey_def)

lemma first_discovery_ax3:
  "AddApplicationWindowsToCollection ax3 App1 InitialState =
     InitialState\<lparr>Windows := [7 \<mapsto> Win7],
       Subscriptions := [DestroyKey Win7 \<mapsto> WindowReference Win7],
       DestroyedWindows := [Win7c]\<rparr>"
  by (simp add: scenario_defs ax3_def Win7c_def DestroyKey_def)

theorem C6_discovery_idempotent_witness:
  "Windows (AddApplicationWindowsToCollection ax3 App1 InitialState) 7 = Some Win7 \<and>
   Windows (AddApplicationWindowsToCollection ax4 App1
     (AddApplicationWindowsToCollection ax3 App1 InitialState)) 7 = Some Win7 \<and>
   AXLibWindowListForApplication ax4 App1 = AXLibWindowListForApplication ax3 App1 \<and>
   AXLibWindowListForApplication ax3 App1 = Some [Win7, Win7c] \<and>
   \<not> admissible ax3 Win7c \<and>
   admissible ax4 Win7c \<and>
   Windows (AddApplicationWindowsToCollection ax3 App1 InitialState) (Id_w Win7) \<noteq> None \<and>
   Windows (AddApplicationWindowsToCollection ax3 App1 InitialState) (Id_w Win7c) \<noteq> None \<and>
   Windows (AddApplicationWindowsToCollection ax4 App1
     (AddApplicationWindowsToCollection ax3 App1 InitialState)) =
     Windows (AddApplicationWindowsToCollection ax3 App1 InitialState) \<and>
   Subscriptions (AddApplicationWindowsToCollection ax4 App1
     (AddApplicationWindowsToCollection ax3 App1 InitialState)) =
     Subscriptions (AddApplicationWindowsToCollection ax3 App1 InitialState) \<and>
   DestroyedWindows (AddApplicationWindowsToCollection ax4 App1
     (AddApplicationWindowsToCollection ax3 App1 InitialState)) = [Win7c] @ [Win7, Win7c] \<and>
   Windows (AddApplicationWindowsToCollection ax1 App1
     (AddApplicationWindowsToCollection ax1 App1 InitialState)) =
     Windows (AddApplicationWindowsToCollection ax1 App1 InitialState) \<and>
   Windows (AddApplicationWindowsToCollection ax1 App1 InitialState) (Id_w Win9) = None \<and>
   \<not> admissible ax1 Win9"
proof -
  have seven: "Windows (AddApplicationWindowsToCollection ax3 App1 InitialState) 7 = Some Win7"
    by (simp add: first_discovery_ax3)
  have same: "AXLibWindowListForApplication ax4 App1 = AXLibWindowListForApplication ax3 App1"
    by (simp add: ax4_def)
  have list: "AXLibWindowListForApplication ax3 App1 = Some [Win7, Win7c]"
    by (simp add: ax3_def App1_def)
  have refused: "\<not> admissible ax3 Win7c"
    by (simp add: admissible_def ax3_def ax1_def Win7c_def App1_def kAXErrorSuccess_def)
  have granted: "admissible ax4 Win7c"
    by (simp add: admissible_def ax4_def Win7c_def kAXErrorSuccess_def)
  have present: "Windows (AddApplicationWindowsToCollection ax3 App1 InitialState) (Id_w Win7) \<noteq> None \<and>
      Windows (AddApplicationWindowsToCollection ax3 App1 InitialState) (Id_w Win7c) \<noteq> None"
    by (simp add: first_discovery_ax3 Win7_def Win7c_def)
  with list have answers: "\<forall>List. AXLibWindowListForApplication ax3 App1 = Some List \<longrightarrow>
       (\<forall>W \<in> set List.
          Windows (AddApplicationWindowsToCollection ax3 App1 InitialState) (Id_w W) = None \<longrightarrow>
          \<not> admissible ax4 W)"
    by auto
  note inst = C6_discovery_idempotent [of ax3 App1 InitialState ax4]
  from inst seven have a: "Windows (AddApplicationWindowsToCollection ax4 App1
     (AddApplicationWindowsToCollection ax3 App1 InitialState)) 7 = Some Win7"
    by blast
  from inst same answers have b: "Windows (AddApplicationWindowsToCollection ax4 App1
     (AddApplicationWindowsToCollection ax3 App1 InitialState)) =
     Windows (AddApplicationWindowsToCollection ax3 App1 InitialState) \<and>
   Subscriptions (AddApplicationWindowsToCollection ax4 App1
     (AddApplicationWindowsToCollection ax3 App1 InitialState)) =
     Subscriptions (AddApplicationWindowsToCollection ax3 App1 InitialState) \<and>
   DestroyedWindows (AddApplicationWindowsToCollection ax4 App1
     (AddApplicationWindowsToCollection ax3 App1 InitialState)) =
     DestroyedWindows (AddApplicationWindowsToCollection ax3 App1 InitialState) @
          (case AXLibWindowListForApplication ax3 App1 of None \<Rightarrow> [] | Some List \<Rightarrow> List)"
    by blast
  then have c: "DestroyedWindows (AddApplicationWindowsToCollection ax4 App1
     (AddApplicationWindowsToCollection ax3 App1 InitialState)) = [Win7c] @ [Win7, Win7c]"
    by (simp add: list first_discovery_ax3)
  have list1: "AXLibWindowListForApplication ax1 App1 = Some [Win7, Win0, Win9, Win8, Win7b]"
    by (simp add: ax1_def App1_def)
  have nine: "Windows (AddApplicationWindowsToCollection ax1 App1 InitialState) (Id_w Win9) = None"
    by (simp add: first_discovery Win9_def)
  have answers1: "\<forall>List. AXLibWindowListForApplication ax1 App1 = Some List \<longrightarrow>
       (\<forall>W \<in> set List.
          Windows (AddApplicationWindowsToCollection ax1 App1 InitialState) (Id_w W) = None \<longrightarrow>
          \<not> admissible ax1 W)"
    using discover_all_settled [of _ _ ax1 InitialState] by (fastforce simp add: discovery_eq)
  from C6_discovery_idempotent [of ax1 App1 InitialState ax1] answers1
  have d: "Windows (AddApplicationWindowsToCollection ax1 App1
     (AddApplicationWindowsToCollection ax1 App1 InitialState)) =
     Windows (AddApplicationWindowsToCollection ax1 App1 InitialState)"
    by blast
  from seven a same list refused granted present b c d nine example_admissible(3)
  show ?thesis by blast
qed

text \<open>
  The enumeration alone does not decide the second invocation. In the scenario the
  first discovery rejects the window with handle 90 because its subscription is
  refused; if the service grants it the second time, the second discovery of the same
  enumeration registers window 9.
\<close>

theorem C6_second_discovery_registers_counterexample:
  "AXLibWindowListForApplication ax2 App1 = AXLibWindowListForApplication ax1 App1 \<and>
   AXLibWindowListForApplication ax1 App1 = Some [Win7, Win0, Win9, Win8, Win7b] \<and>
   Windows (AddApplicationWindowsToCollection ax1 App1 InitialState) 9 = None \<and>
   Windows (AddApplicationWindowsToCollection ax2 App1
     (AddApplicationWindowsToCollection ax1 App1 InitialState)) 9 = Some Win9"
proof -
  have list: "AXLibWindowListForApplication ax2 App1 = AXLibWindowListForApplication ax1 App1"
    by (simp add: ax2_def)
  have list1: "AXLibWindowListForApplication ax1 App1 = Some [Win7, Win0, Win9, Win8, Win7b]"
    by (simp add: ax1_def App1_def)
  have first: "Windows (AddApplicationWindowsToCollection ax1 App1 InitialState) 9 = None"
    by (simp add: first_discovery)
  have second: "Windows (AddApplicationWindowsToCollection ax2 App1
     (AddApplicationWindowsToCollection ax1 App1 InitialState)) 9 = Some Win9"
    unfolding first_discovery by (simp add: scenario_defs)
  from list list1 first second show ?thesis by blast
qed

end
